theory Spec2Isabelle
  imports Main "HOL-Library.Sublist"
begin

section \<open>Material generator for repak: a model of generate\_materials.py\<close>

text \<open>
  The script reads material names from standard input, writes one JSON descriptor and one
  copy of a binary template per name, and patches the text of a manifest file. The model
  follows the script function by function. Python strings are lists of \<^typ>\<open>char\<close>, read
  as code points below 256; the file system and the console are fields of an explicit
  \<open>world\<close> that every function takes and returns; a raised exception is the \<open>Inl\<close> branch
  of the result.
\<close>

subsection \<open>Python string operations used by the script\<close>

text \<open>\<open>pat in txt\<close> on strings: substring test, scanning the start positions left to right.\<close>

fun str_contains :: "string \<Rightarrow> string \<Rightarrow> bool" where
  "str_contains pat [] = (pat = [])"
| "str_contains pat (x # xs) = (prefix pat (x # xs) \<or> str_contains pat xs)"

text \<open>\<open>txt.find(pat)\<close>: the lowest index at which \<open>pat\<close> starts, or \<open>-1\<close>.\<close>

fun find_from :: "string \<Rightarrow> string \<Rightarrow> nat \<Rightarrow> int" where
  "find_from pat [] i = (if pat = [] then int i else - 1)"
| "find_from pat (x # xs) i = (if prefix pat (x # xs) then int i else find_from pat xs (Suc i))"

definition str_find :: "string \<Rightarrow> string \<Rightarrow> int" where
  "str_find txt pat = find_from pat txt 0"

text \<open>
  \<open>txt.rfind(c, 0, end)\<close> for a one-character pattern and \<open>end \<ge> 0\<close>: the highest index
  below \<open>end\<close> holding \<open>c\<close>, or \<open>-1\<close>. The scan keeps the last index seen.
\<close>

fun rfind_scan :: "char \<Rightarrow> string \<Rightarrow> nat \<Rightarrow> int \<Rightarrow> int" where
  "rfind_scan c [] i acc = acc"
| "rfind_scan c (x # xs) i acc = rfind_scan c xs (Suc i) (if x = c then int i else acc)"

definition str_rfind :: "string \<Rightarrow> char \<Rightarrow> int \<Rightarrow> int" where
  "str_rfind txt c end = rfind_scan c (take (nat end) txt) 0 (- 1)"

text \<open>\<open>txt.split(c)\<close> with an explicit separator: never empty, keeps empty segments.\<close>

fun str_split :: "char \<Rightarrow> string \<Rightarrow> string list" where
  "str_split c [] = [[]]"
| "str_split c (x # xs) =
     (if x = c then [] # str_split c xs
      else (case str_split c xs of [] \<Rightarrow> [[x]] | seg # segs \<Rightarrow> (x # seg) # segs))"

text \<open>\<open>sep.join(segs)\<close>.\<close>

fun str_join :: "string \<Rightarrow> string list \<Rightarrow> string" where
  "str_join sep [] = []"
| "str_join sep [s] = s"
| "str_join sep (s # t # ss) = s @ sep @ str_join sep (t # ss)"

text \<open>\<open>txt.replace(c, new)\<close> for a one-character \<open>c\<close>.\<close>

definition str_replace :: "char \<Rightarrow> string \<Rightarrow> string \<Rightarrow> string" where
  "str_replace c new txt = concat (map (\<lambda>x. if x = c then new else [x]) txt)"

text \<open>
  \<open>str.isspace\<close>, \<open>str.strip()\<close> and \<open>str.lower()\<close> on code points below 256: the white space
  is U+0009..U+000D, U+001C..U+0020, U+0085 and U+00A0; the upper-case letters are
  \<open>A..Z\<close> and U+00C0..U+00DE without U+00D7, each 32 below its lower-case form.
\<close>

definition isspace :: "char \<Rightarrow> bool" where
  "isspace c = (let n = (of_char c :: nat)
                in (9 \<le> n \<and> n \<le> 13) \<or> (28 \<le> n \<and> n \<le> 32) \<or> n = 133 \<or> n = 160)"

definition strip :: "string \<Rightarrow> string" where
  "strip s = rev (dropWhile isspace (rev (dropWhile isspace s)))"

definition lower_char :: "char \<Rightarrow> char" where
  "lower_char c = (let n = (of_char c :: nat)
                   in if (65 \<le> n \<and> n \<le> 90) \<or> (192 \<le> n \<and> n \<le> 222 \<and> n \<noteq> 215)
                      then char_of (n + 32) else c)"

definition lower :: "string \<Rightarrow> string" where
  "lower s = map lower_char s"

text \<open>\<open>str(n)\<close> for a non-negative integer, as the f-strings print counts.\<close>

fun nat_str :: "nat \<Rightarrow> string" where
  "nat_str n = (if n < 10 then [char_of (48 + n)]
                else nat_str (n div 10) @ [char_of (48 + n mod 10)])"

declare nat_str.simps [simp del]

subsection \<open>The world: files, directories, console, and the faults of the platform\<close>

text \<open>
  A path is the list of operands joined by pathlib's \<open>/\<close>; a plain file name is a
  one-element path. \<open>read_fault\<close>, \<open>write_fault\<close> and \<open>mkdir_fault\<close> say on which paths the
  platform refuses the operation (permission denied, disk full, ...) and with which message.
  A refused operation leaves the world as it was; a write that breaks off part-way is not
  modelled.
\<close>

type_synonym path = "string list"

datatype exn = FileNotFoundError | OSError string | EOFError

record world =
  files :: "path \<Rightarrow> string option"
  dirs :: "path set"
  out :: "string list"
  read_fault :: "path \<Rightarrow> string option"
  write_fault :: "path \<Rightarrow> string option"
  mkdir_fault :: "path \<Rightarrow> string option"

text \<open>\<open>print(line)\<close>: one more line on the console.\<close>

definition py_print :: "string \<Rightarrow> world \<Rightarrow> world" where
  "py_print line w = w\<lparr>out := out w @ [line]\<rparr>"

definition path_exists :: "world \<Rightarrow> path \<Rightarrow> bool" where
  "path_exists w p = (files w p \<noteq> None \<or> p \<in> dirs w)"

text \<open>\<open>open(p, 'r').read()\<close>.\<close>

definition fs_read :: "path \<Rightarrow> world \<Rightarrow> exn + string" where
  "fs_read p w =
     (case files w p of
        None \<Rightarrow> Inl FileNotFoundError
      | Some c \<Rightarrow> (case read_fault w p of Some msg \<Rightarrow> Inl (OSError msg) | None \<Rightarrow> Inr c))"

text \<open>\<open>open(p, 'w').write(c)\<close>: creates or overwrites.\<close>

definition fs_write :: "path \<Rightarrow> string \<Rightarrow> world \<Rightarrow> exn + world" where
  "fs_write p c w =
     (case write_fault w p of
        Some msg \<Rightarrow> Inl (OSError msg)
      | None \<Rightarrow> Inr (w\<lparr>files := (files w)(p \<mapsto> c)\<rparr>))"

text \<open>\<open>p.mkdir(parents=True, exist_ok=True)\<close>: an existing directory is left as it is.\<close>

definition fs_mkdir :: "path \<Rightarrow> world \<Rightarrow> exn + world" where
  "fs_mkdir p w =
     (if files w p \<noteq> None then Inl (OSError ''File exists'')
      else case mkdir_fault w p of
             Some msg \<Rightarrow> Inl (OSError msg)
           | None \<Rightarrow> Inr (w\<lparr>dirs := insert p (dirs w)\<rparr>))"

text \<open>\<open>shutil.copy2(src, dst)\<close>.\<close>

definition fs_copy2 :: "path \<Rightarrow> path \<Rightarrow> world \<Rightarrow> exn + world" where
  "fs_copy2 src dst w =
     (case files w src of
        None \<Rightarrow> Inl (if src \<in> dirs w then OSError ''Is a directory'' else FileNotFoundError)
      | Some c \<Rightarrow>
          (case read_fault w src of
             Some msg \<Rightarrow> Inl (OSError msg)
           | None \<Rightarrow> fs_write dst c w))"

definition exn_str :: "exn \<Rightarrow> string" where
  "exn_str e = (case e of FileNotFoundError \<Rightarrow> ''No such file or directory''
                | OSError msg \<Rightarrow> msg | EOFError \<Rightarrow> ''EOF when reading a line'')"

subsection \<open>The material descriptor\<close>

datatype json = JStr string | JNum int | JArr "json list" | JObj "(string \<times> json) list"

text \<open>
  The platform: \<open>os.sep\<close>, the text \<open>json.dump(_, indent=4)\<close> writes for a value, and how
  \<open>str\<close> renders a path. They belong to the Python library, not to the script.
\<close>

record platform =
  os_sep :: string
  json_dump :: "json \<Rightarrow> string"
  path_str :: "path \<Rightarrow> string"

definition create_material_json :: "string \<Rightarrow> json" where
  "create_material_json material_name = JObj
     [(''name'', JStr material_name),
      (''width'', JNum 2048),
      (''height'', JNum 2048),
      (''depth'', JNum 0),
      (''glueFlags'', JStr ''0x56000420''),
      (''glueFlags2'', JStr ''0x0''),
      (''blendStates'', JArr
         [JStr ''0xF0000000'', JStr ''0xF0000000'', JStr ''0xF0000000'', JStr ''0xF0000000'',
          JStr ''0xF0000000'', JStr ''0xF0000000'', JStr ''0xF0000000'', JStr ''0xF0000000'']),
      (''blendStateMask'', JStr ''0x4''),
      (''depthStencilFlags'', JStr ''0x17''),
      (''rasterizerFlags'', JStr ''0x6''),
      (''uberBufferFlags'', JStr ''0x0''),
      (''features'', JStr ''0x1F5A92BD''),
      (''samplers'', JStr ''0x1D0300''),
      (''surfaceProp'', JStr ''default''),
      (''surfaceProp2'', JStr []),
      (''shaderType'', JStr ''sknp''),
      (''shaderSet'', JStr ''0x97E4F7D956E5E6CE''),
      (''$textures'', JObj
         [(''0'', JStr (''texture/'' @ material_name @ ''_0.rpak'')),
          (''1'', JStr (''texture/'' @ material_name @ ''_1.rpak'')),
          (''2'', JStr (''texture/'' @ material_name @ ''_2.rpak'')),
          (''3'', JStr (''texture/'' @ material_name @ ''_3.rpak'')),
          (''4'', JStr (''texture/'' @ material_name @ ''_4.rpak'')),
          (''5'', JStr (''texture/'' @ material_name @ ''_5.rpak'')),
          (''6'', JStr (''texture/'' @ material_name @ ''_6.rpak''))]),
      (''$depthShadowMaterial'', JStr ''0x2B93C99C67CC8B51''),
      (''$depthPrepassMaterial'', JStr ''0x1EBD063EA03180C7''),
      (''$depthVSMMaterial'', JStr ''0xF95A7FA9E8DE1A0E''),
      (''$depthShadowTightMaterial'', JStr ''0x227C27B608B3646B''),
      (''$colpassMaterial'', JStr ''0x0''),
      (''$textureAnimation'', JStr ''0x0'')]"

text \<open>Reading a key of a JSON object, as \<open>d[key]\<close> does on the dictionary.\<close>

definition json_get :: "json \<Rightarrow> string \<Rightarrow> json option" where
  "json_get j key = (case j of JObj kvs \<Rightarrow> map_of kvs key | _ \<Rightarrow> None)"

subsection \<open>The manifest patcher\<close>

definition json_file :: path where
  "json_file = [''common_flowstate.json'']"

definition first_matl_pattern :: string where
  \<open>first_matl_pattern = ''"_type": "matl"''\<close>

definition quoted :: "string \<Rightarrow> string" where
  \<open>quoted material_path = ''"'' @ material_path @ ''"''\<close>

text \<open>The entry block the f-string of lines 106 to 110 builds for one path.\<close>

definition entry_block :: "string \<Rightarrow> string" where
  \<open>entry_block material_path =
     ''    {\<newline>      "_type": "matl",\<newline>      "_path": "'' @ material_path
       @ ''"\<newline>    },\<newline>''\<close>

text \<open>
  The loop of lines 77 to 83 over the candidate paths: it carries the two lists and the
  world (for the printed lines), and tests every candidate against the text read at the start.
\<close>

fun classify :: "string \<Rightarrow> string list \<Rightarrow> string list \<Rightarrow> string list \<Rightarrow> world
                  \<Rightarrow> string list \<times> string list \<times> world" where
  "classify content [] new_material_paths existing_paths w =
     (new_material_paths, existing_paths, w)"
| "classify content (material_path # rest) new_material_paths existing_paths w =
     (if str_contains (quoted material_path) content
      then classify content rest new_material_paths (existing_paths @ [material_path])
             (py_print (''  Skipping (already exists): '' @ material_path) w)
      else classify content rest (new_material_paths @ [material_path]) existing_paths w)"

text \<open>The loop of lines 104 to 110: \<open>new_entries_text += ...\<close> for every new path.\<close>

fun build_entries :: "string \<Rightarrow> string list \<Rightarrow> string" where
  "build_entries new_entries_text [] = new_entries_text"
| "build_entries new_entries_text (material_path # rest) =
     build_entries (new_entries_text @ entry_block material_path) rest"

definition update_common_flowstate_json :: "string list \<Rightarrow> world \<Rightarrow> (exn + unit) \<times> world" where
  "update_common_flowstate_json material_paths w =
     (case fs_read json_file w of
        Inl FileNotFoundError \<Rightarrow>
          (Inr (), py_print ''Error: common_flowstate.json not found'' w)
      | Inl e \<Rightarrow> (Inl e, w)
      | Inr content \<Rightarrow>
          (case classify content material_paths [] [] w of
             (new_material_paths, existing_paths, w1) \<Rightarrow>
               if new_material_paths = [] then
                 (Inr (), py_print
                    ''All material paths already exist in common_flowstate.json. No changes made.'' w1)
               else
                 let first_matl_index = str_find content first_matl_pattern in
                 if first_matl_index = - 1 then
                   (Inr (), py_print
                      ''Warning: No existing material entries found in common_flowstate.json'' w1)
                 else
                   let entry_start = str_rfind content (CHR ''{'') first_matl_index in
                   if entry_start = - 1 then
                     (Inr (), py_print
                        ''Error: Could not find the start of the first material entry'' w1)
                   else
                     let new_entries_text = build_entries [] new_material_paths;
                         new_content = take (nat entry_start) content @ new_entries_text
                                         @ drop (nat entry_start) content
                     in (case fs_write json_file new_content w1 of
                           Inl e \<Rightarrow>
                             (Inr (), py_print
                                (''Error writing to common_flowstate.json: '' @ exn_str e) w1)
                         | Inr w2 \<Rightarrow>
                             let w3 = py_print
                                   (''Added '' @ nat_str (length new_material_paths)
                                      @ '' new material entries to common_flowstate.json'') w2
                             in (Inr (),
                                 if existing_paths \<noteq> [] then
                                   py_print (''Skipped '' @ nat_str (length existing_paths)
                                               @ '' existing entries'') w3
                                 else w3))))"

subsection \<open>The material file generator\<close>

definition uber_template :: path where
  "uber_template = [''testuber.uber'']"

definition assets_dir :: path where
  "assets_dir = [''assets'']"

definition base_name_of :: "string \<Rightarrow> string" where
  "base_name_of material_name = last (str_split (CHR ''/'') material_name)"

definition material_path_of :: "string \<Rightarrow> string" where
  "material_path_of material_name = ''material/'' @ material_name @ ''_sknp.rpak''"

definition parent_path_of :: "string \<Rightarrow> string" where
  "parent_path_of material_name =
     (if CHR ''/'' \<in> set material_name
      then str_join ''/'' (butlast (str_split (CHR ''/'') material_name)) else [])"

definition material_dir_of :: "platform \<Rightarrow> string \<Rightarrow> path" where
  "material_dir_of pf material_name =
     (let parent_path = parent_path_of material_name
      in if parent_path \<noteq> []
         then assets_dir @ [''material''] @ [str_replace (CHR ''/'') (os_sep pf) parent_path]
         else assets_dir @ [''material''])"

text \<open>
  The body of the loop of lines 142 to 175 for one name. It returns the logical manifest
  path it recorded, or the exception an unguarded file operation raised.
\<close>

definition process_material :: "platform \<Rightarrow> string \<Rightarrow> world \<Rightarrow> (exn + string) \<times> world" where
  "process_material pf material_name w =
     (let w0 = py_print (''Processing material: '' @ material_name) w;
          base_name = base_name_of material_name;
          material_path = material_path_of material_name;
          material_dir = material_dir_of pf material_name
      in case fs_mkdir material_dir w0 of
           Inl e \<Rightarrow> (Inl e, w0)
         | Inr w1 \<Rightarrow>
             let json_content = create_material_json material_name;
                 json_file_path = material_dir @ [base_name @ ''_sknp.json'']
             in (case fs_write json_file_path (json_dump pf json_content) w1 of
                   Inl e \<Rightarrow> (Inl e, w1)
                 | Inr w2 \<Rightarrow>
                     let uber_file_path = material_dir @ [base_name @ ''_sknp.uber'']
                     in (case fs_copy2 uber_template uber_file_path w2 of
                           Inl e \<Rightarrow> (Inl e, w2)
                         | Inr w3 \<Rightarrow>
                             (Inr material_path,
                              py_print (''  Created: '' @ path_str pf uber_file_path)
                                (py_print (''  Created: '' @ path_str pf json_file_path) w3)))))"

fun process_all :: "platform \<Rightarrow> string list \<Rightarrow> string list \<Rightarrow> world
                     \<Rightarrow> (exn + string list) \<times> world" where
  "process_all pf [] material_paths w = (Inr material_paths, w)"
| "process_all pf (material_name # rest) material_paths w =
     (case process_material pf material_name w of
        (Inl e, w') \<Rightarrow> (Inl e, w')
      | (Inr material_path, w') \<Rightarrow> process_all pf rest (material_paths @ [material_path]) w')"

definition generate_materials :: "platform \<Rightarrow> string list \<Rightarrow> world \<Rightarrow> (exn + unit) \<times> world" where
  "generate_materials pf material_names w =
     (if material_names = [] then (Inr (), py_print ''No material names provided.'' w)
      else if \<not> path_exists w uber_template then
        (Inr (), py_print ''Error: testuber.uber not found in the current directory.'' w)
      else
        (case process_all pf material_names [] w of
           (Inl e, w') \<Rightarrow> (Inl e, w')
         | (Inr material_paths, w') \<Rightarrow>
             (case update_common_flowstate_json material_paths
                     (py_print ''\<newline>Updating common_flowstate.json...'' w') of
                (Inl e, w'') \<Rightarrow> (Inl e, w'')
              | (Inr u, w'') \<Rightarrow>
                  (Inr (), py_print (''\<newline>Completed processing ''
                                       @ nat_str (length material_names) @ '' materials.'') w''))))"

subsection \<open>The input collector\<close>

text \<open>
  Standard input is the list of the lines still to be read; \<open>input()\<close> on an exhausted
  input raises \<open>EOFError\<close>. The loop of lines 193 to 197 returns the names and the lines left.
\<close>

fun read_names :: "string list \<Rightarrow> string list \<Rightarrow> (exn + string list) \<times> string list" where
  "read_names [] material_names = (Inl EOFError, [])"
| "read_names (line # rest) material_names =
     (let material_name = strip line
      in if material_name = [] then (Inr material_names, rest)
         else read_names rest (material_names @ [material_name]))"

fun echo_names :: "nat \<Rightarrow> string list \<Rightarrow> world \<Rightarrow> world" where
  "echo_names i [] w = w"
| "echo_names i (name # rest) w =
     echo_names (Suc i) rest (py_print (''  '' @ nat_str i @ ''. '' @ name) w)"

definition main :: "platform \<Rightarrow> string list \<Rightarrow> world \<Rightarrow> (exn + unit) \<times> world" where
  "main pf stdin w =
     (let w0 = py_print ''Enter material names (one per line, empty line to finish):''
                 (py_print (replicate 40 (CHR ''='')) (py_print ''Material Generator for Repak'' w))
      in case read_names stdin [] of
           (Inl e, rest) \<Rightarrow> (Inl e, w0)
         | (Inr material_names, rest) \<Rightarrow>
             if material_names = [] then
               (Inr (), py_print ''No material names provided. Exiting.'' w0)
             else
               let w1 = echo_names 1 material_names
                          (py_print ''\<newline>Material names to process:'' w0);
                   w2 = py_print ''\<newline>Proceed with generation? (y/N): '' w1
               in (case rest of
                     [] \<Rightarrow> (Inl EOFError, w2)
                   | answer # rest' \<Rightarrow>
                       let confirm = lower (strip answer)
                       in if confirm = ''y'' \<or> confirm = ''yes''
                          then generate_materials pf material_names w2
                          else (Inr (), py_print ''Operation cancelled.'' w2)))"

subsection \<open>Counting the entries of a path in the manifest text\<close>




subsection \<open>A sample world\<close>

text \<open>
  A manifest with one material entry and a template file, on a platform without faults.
  The closed instances of the theorems below are evaluated in it.
\<close>

definition manifest_demo :: string where
  \<open>manifest_demo = ''[ { "_type": "matl", "_path": "material/old_sknp.rpak" } ]''\<close>

definition no_fault :: "path \<Rightarrow> string option" where
  "no_fault p = None"

definition demo_world :: world where
  "demo_world = \<lparr>files = [json_file \<mapsto> manifest_demo, uber_template \<mapsto> ''UBER''],
                  dirs = {}, out = [],
                  read_fault = no_fault, write_fault = no_fault, mkdir_fault = no_fault\<rparr>"

definition manifest_no_matl :: string where
  \<open>manifest_no_matl = ''[ { "_type": "txtr", "_path": "texture/a.rpak" } ]''\<close>

text \<open>A compact JSON printer standing for \<open>json.dump\<close>, and a POSIX platform.\<close>

fun demo_dump :: "json \<Rightarrow> string" where
  "demo_dump (JStr s) = quoted s"
| "demo_dump (JNum i) = (if i < 0 then ''-'' else []) @ nat_str (nat \<bar>i\<bar>)"
| "demo_dump (JArr js) = ''['' @ str_join '', '' (map demo_dump js) @ '']''"
| "demo_dump (JObj kvs) =
     ''{'' @ str_join '', '' (map (\<lambda>(k, v). quoted k @ '': '' @ demo_dump v) kvs) @ ''}''"

definition demo_platform :: platform where
  "demo_platform = \<lparr>os_sep = ''/'', json_dump = demo_dump, path_str = str_join ''/''\<rparr>"

section \<open>Facts about the string operations\<close>

lemma str_contains_sublist: "str_contains pat s \<longleftrightarrow> sublist pat s"
  by (induction s) (auto simp: sublist_Cons_right)

lemma find_from_none: "find_from pat s i = - 1 \<longleftrightarrow> \<not> sublist pat s"
  by (induction s arbitrary: i) (auto simp: sublist_Cons_right)



lemma str_find_none: "str_find s pat = - 1 \<longleftrightarrow> \<not> sublist pat s"
  by (simp add: str_find_def find_from_none)




lemma str_split_nonempty: "str_split c s \<noteq> []"
  by (induction s) (auto split: list.splits)

lemma str_split_snoc: "str_split c (s @ [c]) = str_split c s @ [[]]"
  by (induction s) (auto split: list.splits simp: str_split_nonempty)

lemma str_join_cons_seg: "str_join sep ((x # seg) # segs) = x # str_join sep (seg # segs)"
  by (cases segs) auto

lemma str_join_split: "str_join [c] (str_split c s) = s"
proof (induction s)
  case Nil
  show ?case by simp
next
  case (Cons x xs)
  obtain seg segs where sp: "str_split c xs = seg # segs"
    using str_split_nonempty[of c xs] by (cases "str_split c xs") auto
  with Cons show ?case by (auto simp: str_join_cons_seg)
qed

section \<open>Facts about the patcher's loops\<close>



lemma classify_eq:
  "classify content ps new ex w =
     (new @ filter (\<lambda>p. \<not> sublist (quoted p) content) ps,
      ex @ filter (\<lambda>p. sublist (quoted p) content) ps,
      w\<lparr>out := out w @ map (\<lambda>p. ''  Skipping (already exists): '' @ p)
                          (filter (\<lambda>p. sublist (quoted p) content) ps)\<rparr>)"
  by (induction ps arbitrary: new ex w) (simp_all add: str_contains_sublist py_print_def)

section \<open>Facts about counting quoted paths\<close>




















section \<open>Facts about the generator\<close>

lemma base_name_trailing_slash: "base_name_of (stem @ ''/'') = []"
  by (simp add: base_name_of_def str_split_snoc)

lemma parent_path_trailing_slash: "parent_path_of (stem @ ''/'') = stem"
  by (simp add: parent_path_of_def str_split_snoc str_join_split)

lemma material_dir_length: "2 \<le> length (material_dir_of pf n)"
  by (simp add: material_dir_of_def assets_dir_def Let_def)

lemma process_material_ok:
  assumes "files w (material_dir_of pf n) = None"
    and "mkdir_fault w (material_dir_of pf n) = None"
    and "write_fault w (material_dir_of pf n @ [base_name_of n @ ''_sknp.json'']) = None"
    and "write_fault w (material_dir_of pf n @ [base_name_of n @ ''_sknp.uber'']) = None"
    and "files w uber_template = Some c"
    and "read_fault w uber_template = None"
  shows "process_material pf n w =
     (Inr (material_path_of n),
      w\<lparr>out := out w @ [''Processing material: '' @ n,
            ''  Created: '' @ path_str pf (material_dir_of pf n @ [base_name_of n @ ''_sknp.json'']),
            ''  Created: '' @ path_str pf (material_dir_of pf n @ [base_name_of n @ ''_sknp.uber''])],
        dirs := insert (material_dir_of pf n) (dirs w),
        files := (files w)
          (material_dir_of pf n @ [base_name_of n @ ''_sknp.json''] \<mapsto>
             json_dump pf (create_material_json n),
           material_dir_of pf n @ [base_name_of n @ ''_sknp.uber''] \<mapsto> c)\<rparr>)"
proof -
  have ne: "material_dir_of pf n @ [base_name_of n @ ''_sknp.json''] \<noteq> uber_template"
    using material_dir_length[of pf n] by (auto simp: uber_template_def)
  show ?thesis
    using assms ne
    by (simp add: process_material_def fs_mkdir_def fs_write_def fs_copy2_def py_print_def Let_def)
qed

lemma process_material_result:
  "process_material pf n w = (Inr p, w') \<Longrightarrow> p = material_path_of n"
  by (auto simp: process_material_def Let_def split: sum.splits)

lemma process_all_paths:
  "process_all pf names acc w = (Inr ps, w') \<Longrightarrow> ps = acc @ map material_path_of names"
proof (induction names arbitrary: acc w)
  case Nil
  then show ?case by simp
next
  case (Cons n names)
  show ?case
  proof (cases "process_material pf n w")
    case (Pair r w1)
    show ?thesis
    proof (cases r)
      case (Inl e)
      with Pair Cons.prems show ?thesis by simp
    next
      case (Inr q)
      with Pair Cons.prems have "process_all pf names (acc @ [q]) w1 = (Inr ps, w')" by simp
      from Cons.IH[OF this] process_material_result[of pf n w q w1] Pair Inr
      show ?thesis by simp
    qed
  qed
qed



lemma process_material_files:
  assumes "process_material pf n w = (Inr p, w')"
  shows "\<exists>c. files w uber_template = Some c \<and>
           files w' = (files w)
             (material_dir_of pf n @ [base_name_of n @ ''_sknp.json''] \<mapsto>
                json_dump pf (create_material_json n),
              material_dir_of pf n @ [base_name_of n @ ''_sknp.uber''] \<mapsto> c) \<and>
           dirs w' = insert (material_dir_of pf n) (dirs w)"
proof -
  have ne: "material_dir_of pf n @ [base_name_of n @ ''_sknp.json''] \<noteq> uber_template"
    using material_dir_length[of pf n] by (auto simp: uber_template_def)
  show ?thesis
    using assms ne
    by (auto simp: process_material_def fs_mkdir_def fs_write_def fs_copy2_def py_print_def Let_def
        split: sum.splits option.splits if_splits)
qed

lemma strip_trailing_slash:
  "strip (stem @ ''/'') = dropWhile isspace stem @ ''/''"
proof -
  have ns: "\<not> isspace (CHR ''/'')" by (simp add: isspace_def)
  have "dropWhile isspace (stem @ ''/'') = dropWhile isspace stem @ ''/''"
  proof (cases "\<forall>x \<in> set stem. isspace x")
    case True
    then show ?thesis using ns by (simp add: dropWhile_append2)
  next
    case False
    then show ?thesis by (auto simp: dropWhile_append1)
  qed
  then show ?thesis using ns by (simp add: strip_def)
qed










section \<open>Facts about the input collector\<close>

lemma of_char_lower_char:
  "(of_char (lower_char c) :: nat) =
     (if (65 \<le> (of_char c :: nat) \<and> (of_char c :: nat) \<le> 90) \<or>
         (192 \<le> (of_char c :: nat) \<and> (of_char c :: nat) \<le> 222 \<and> (of_char c :: nat) \<noteq> 215)
      then of_char c + 32 else of_char c)"
  by (simp add: lower_char_def Let_def)

lemma lower_char_y: "lower_char c = CHR ''y'' \<longleftrightarrow> c = CHR ''y'' \<or> c = CHR ''Y''"
proof -
  have "lower_char c = CHR ''y'' \<longleftrightarrow> (of_char (lower_char c) :: nat) = of_char (CHR ''y'')"
    by (simp only: of_char_eq_iff)
  also have "\<dots> \<longleftrightarrow> (of_char c :: nat) = 121 \<or> (of_char c :: nat) = 89"
    unfolding of_char_lower_char by auto
  also have "\<dots> \<longleftrightarrow> (of_char c :: nat) = of_char (CHR ''y'') \<or> (of_char c :: nat) = of_char (CHR ''Y'')"
    by simp
  also have "\<dots> \<longleftrightarrow> c = CHR ''y'' \<or> c = CHR ''Y''"
    by (simp only: of_char_eq_iff)
  finally show ?thesis .
qed

lemma lower_char_e: "lower_char c = CHR ''e'' \<longleftrightarrow> c = CHR ''e'' \<or> c = CHR ''E''"
proof -
  have "lower_char c = CHR ''e'' \<longleftrightarrow> (of_char (lower_char c) :: nat) = of_char (CHR ''e'')"
    by (simp only: of_char_eq_iff)
  also have "\<dots> \<longleftrightarrow> (of_char c :: nat) = 101 \<or> (of_char c :: nat) = 69"
    unfolding of_char_lower_char by auto
  also have "\<dots> \<longleftrightarrow> (of_char c :: nat) = of_char (CHR ''e'') \<or> (of_char c :: nat) = of_char (CHR ''E'')"
    by simp
  also have "\<dots> \<longleftrightarrow> c = CHR ''e'' \<or> c = CHR ''E''"
    by (simp only: of_char_eq_iff)
  finally show ?thesis .
qed

lemma lower_char_s: "lower_char c = CHR ''s'' \<longleftrightarrow> c = CHR ''s'' \<or> c = CHR ''S''"
proof -
  have "lower_char c = CHR ''s'' \<longleftrightarrow> (of_char (lower_char c) :: nat) = of_char (CHR ''s'')"
    by (simp only: of_char_eq_iff)
  also have "\<dots> \<longleftrightarrow> (of_char c :: nat) = 115 \<or> (of_char c :: nat) = 83"
    unfolding of_char_lower_char by auto
  also have "\<dots> \<longleftrightarrow> (of_char c :: nat) = of_char (CHR ''s'') \<or> (of_char c :: nat) = of_char (CHR ''S'')"
    by simp
  also have "\<dots> \<longleftrightarrow> c = CHR ''s'' \<or> c = CHR ''S''"
    by (simp only: of_char_eq_iff)
  finally show ?thesis .
qed

lemma lower_is_y: "lower s = ''y'' \<longleftrightarrow> s = ''y'' \<or> s = ''Y''"
  by (auto simp: lower_def map_eq_Cons_conv lower_char_y)

lemma lower_is_yes:
  "lower s = ''yes'' \<longleftrightarrow>
     s \<in> {''yes'', ''yeS'', ''yEs'', ''yES'', ''Yes'', ''YeS'', ''YEs'', ''YES''}"
proof
  assume "lower s = ''yes''"
  then obtain a b c where s: "s = [a, b, c]" "lower_char a = CHR ''y''" "lower_char b = CHR ''e''"
    "lower_char c = CHR ''s''"
    by (auto simp: lower_def map_eq_Cons_conv)
  then show "s \<in> {''yes'', ''yeS'', ''yEs'', ''yES'', ''Yes'', ''YeS'', ''YEs'', ''YES''}"
    unfolding lower_char_y lower_char_e lower_char_s by auto
next
  assume "s \<in> {''yes'', ''yeS'', ''yEs'', ''yES'', ''Yes'', ''YeS'', ''YEs'', ''YES''}"
  then show "lower s = ''yes''"
    by (auto simp: lower_def lower_char_y lower_char_e lower_char_s)
qed

lemma echo_names_out: "\<exists>lines. echo_names i names w = w\<lparr>out := lines\<rparr>"
proof (induction names arbitrary: i w)
  case Nil
  have "w = w\<lparr>out := out w\<rparr>" by simp
  then show ?case by (metis echo_names.simps(1))
next
  case (Cons n names)
  from Cons[of "Suc i" "py_print (''  '' @ nat_str i @ ''. '' @ n) w"]
  show ?case by (auto simp: py_print_def)
qed


section \<open>Facts about the sample world\<close>

lemma demo_process_foo_bar:
  "fst (process_all demo_platform [''foo/bar''] [] (demo_world\<lparr>files := [uber_template \<mapsto> ''UBER'']\<rparr>))
     = Inr [''material/foo/bar_sknp.rpak'']"
  by (simp add: process_material_def fs_mkdir_def fs_write_def fs_copy2_def py_print_def Let_def
      material_dir_of_def parent_path_of_def base_name_of_def material_path_of_def
      demo_world_def demo_platform_def no_fault_def uber_template_def assets_dir_def
      str_replace_def)

lemma demo_dirs:
  "material_dir_of demo_platform ''foo/bar'' = [''assets'', ''material'', ''foo'']"
  "material_dir_of demo_platform ''baz'' = [''assets'', ''material'']"
  "base_name_of ''foo/bar'' = ''bar''"
  "base_name_of ''baz'' = ''baz''"
  by (simp_all add: material_dir_of_def parent_path_of_def base_name_of_def demo_platform_def
      assets_dir_def str_replace_def)

lemma demo_process_two:
  "fst (process_all demo_platform [''foo/bar'', ''baz''] [] demo_world) =
     Inr [''material/foo/bar_sknp.rpak'', ''material/baz_sknp.rpak'']"
proof -
  have 1: "fst (process_material demo_platform ''foo/bar'' demo_world) = Inr ''material/foo/bar_sknp.rpak''"
    by (simp add: process_material_def demo_dirs fs_mkdir_def fs_write_def fs_copy2_def py_print_def Let_def
      material_path_of_def demo_world_def no_fault_def uber_template_def json_file_def)
  define w1 where "w1 = snd (process_material demo_platform ''foo/bar'' demo_world)"
  have 2: "fst (process_material demo_platform ''baz'' w1) = Inr ''material/baz_sknp.rpak''"
    unfolding w1_def
    by (simp add: process_material_def demo_dirs fs_mkdir_def fs_write_def fs_copy2_def py_print_def Let_def
      material_path_of_def demo_world_def no_fault_def uber_template_def json_file_def)
  show ?thesis
    using 1 2 unfolding w1_def
    by (simp add: split_beta split: sum.splits)
qed





section \<open>The claims\<close>

text \<open>
  C1 (amended). For every material name, the \<open>$textures\<close> entry of the descriptor is a
  mapping of exactly seven entries with the keys \<open>"0"\<close> to \<open>"6"\<close> in this order, and the
  value at key \<open>i\<close> is \<open>texture/<name>_i.rpak\<close>, where \<open><name>\<close> is the full material name
  as entered: the name field holds that same name, and the JSON file the generator writes
  for the name is the dump of this descriptor. As stated, without the \<open>texture/\<close> prefix,
  the claim fails, for instance for the name \<open>wall\<close>.
\<close>

theorem texture_references:
  "(\<exists>t. json_get (create_material_json material_name) ''$textures'' = Some (JObj t) \<and>
        length t = 7 \<and>
        map fst t = [''0'', ''1'', ''2'', ''3'', ''4'', ''5'', ''6''] \<and>
        map snd t = map (\<lambda>i. JStr (''texture/'' @ material_name @ ''_'' @ i @ ''.rpak''))
                      [''0'', ''1'', ''2'', ''3'', ''4'', ''5'', ''6'']) \<and>
   json_get (create_material_json material_name) ''name'' = Some (JStr material_name) \<and>
   (process_material pf material_name w = (Inr p, w') \<longrightarrow>
      files w' (material_dir_of pf material_name @ [base_name_of material_name @ ''_sknp.json''])
        = Some (json_dump pf (create_material_json material_name)))"
proof (intro conjI impI)
  show "\<exists>t. json_get (create_material_json material_name) ''$textures'' = Some (JObj t) \<and>
        length t = 7 \<and>
        map fst t = [''0'', ''1'', ''2'', ''3'', ''4'', ''5'', ''6''] \<and>
        map snd t = map (\<lambda>i. JStr (''texture/'' @ material_name @ ''_'' @ i @ ''.rpak''))
                      [''0'', ''1'', ''2'', ''3'', ''4'', ''5'', ''6'']"
    by (simp add: create_material_json_def json_get_def)
  show "json_get (create_material_json material_name) ''name'' = Some (JStr material_name)"
    by (simp add: create_material_json_def json_get_def)
  assume h: "process_material pf material_name w = (Inr p, w')"
  show "files w' (material_dir_of pf material_name @ [base_name_of material_name @ ''_sknp.json''])
        = Some (json_dump pf (create_material_json material_name))"
    using process_material_files[OF h] by auto
qed

theorem texture_references_witness:
  "json_get (create_material_json ''foo/bar'') ''$textures'' =
     Some (JObj [(''0'', JStr ''texture/foo/bar_0.rpak''), (''1'', JStr ''texture/foo/bar_1.rpak''),
                 (''2'', JStr ''texture/foo/bar_2.rpak''), (''3'', JStr ''texture/foo/bar_3.rpak''),
                 (''4'', JStr ''texture/foo/bar_4.rpak''), (''5'', JStr ''texture/foo/bar_5.rpak''),
                 (''6'', JStr ''texture/foo/bar_6.rpak'')]) \<and>
   files (snd (process_material demo_platform ''foo/bar''
                 (demo_world\<lparr>files := [uber_template \<mapsto> ''UBER'']\<rparr>)))
     [''assets'', ''material'', ''foo'', ''bar_sknp.json''] =
       Some (demo_dump (create_material_json ''foo/bar''))"
proof -
  let ?w = "demo_world\<lparr>files := [uber_template \<mapsto> ''UBER'']\<rparr>"
  let ?r = "process_material demo_platform ''foo/bar'' ?w"
  have "fst ?r = Inr ''material/foo/bar_sknp.rpak''"
    using demo_process_foo_bar by (simp add: split_beta split: sum.splits)
  then have h: "?r = (Inr ''material/foo/bar_sknp.rpak'', snd ?r)"
    by (simp add: prod_eq_iff)
  have u: "json_dump demo_platform = demo_dump" by (simp add: demo_platform_def)
  have t: "json_get (create_material_json ''foo/bar'') ''$textures'' =
     Some (JObj [(''0'', JStr ''texture/foo/bar_0.rpak''), (''1'', JStr ''texture/foo/bar_1.rpak''),
                 (''2'', JStr ''texture/foo/bar_2.rpak''), (''3'', JStr ''texture/foo/bar_3.rpak''),
                 (''4'', JStr ''texture/foo/bar_4.rpak''), (''5'', JStr ''texture/foo/bar_5.rpak''),
                 (''6'', JStr ''texture/foo/bar_6.rpak'')])"
    by (simp add: create_material_json_def json_get_def)
  show ?thesis
    using texture_references[of "''foo/bar''" demo_platform ?w "''material/foo/bar_sknp.rpak''" "snd ?r"]
      h t by (simp add: demo_dirs u)
qed

theorem texture_references_without_prefix_counterexample:
  "json_get (create_material_json ''wall'') ''$textures'' \<noteq>
     Some (JObj [(''0'', JStr ''wall_0.rpak''), (''1'', JStr ''wall_1.rpak''),
                 (''2'', JStr ''wall_2.rpak''), (''3'', JStr ''wall_3.rpak''),
                 (''4'', JStr ''wall_4.rpak''), (''5'', JStr ''wall_5.rpak''),
                 (''6'', JStr ''wall_6.rpak'')])"
  by (simp add: create_material_json_def json_get_def)










text \<open>
  C6. When the manifest text does not contain the marker \<open>"_type": "matl"\<close> and at least
  one candidate path is new, the patcher prints its warning, returns normally and changes no
  file and no directory.
\<close>

theorem no_marker_no_change:
  assumes "files w json_file = Some content"
    and "read_fault w json_file = None"
    and "\<not> sublist first_matl_pattern content"
    and "\<exists>p \<in> set material_paths. \<not> sublist (quoted p) content"
  shows "fst (update_common_flowstate_json material_paths w) = Inr () \<and>
         files (snd (update_common_flowstate_json material_paths w)) = files w \<and>
         dirs (snd (update_common_flowstate_json material_paths w)) = dirs w \<and>
         last (out (snd (update_common_flowstate_json material_paths w))) =
           ''Warning: No existing material entries found in common_flowstate.json''"
proof -
  have n: "filter (\<lambda>p. \<not> sublist (quoted p) content) material_paths \<noteq> []"
    using assms(4) by (auto simp: filter_empty_conv)
  have f: "str_find content first_matl_pattern = - 1"
    using assms(3) by (simp add: str_find_none)
  show ?thesis
    using assms(1,2) n f
    by (simp add: classify_eq update_common_flowstate_json_def fs_read_def py_print_def)
qed

theorem no_marker_no_change_witness:
  "files (snd (update_common_flowstate_json [''material/new_sknp.rpak'']
                (demo_world\<lparr>files := [json_file \<mapsto> manifest_no_matl]\<rparr>))) json_file
     = Some manifest_no_matl \<and>
   last (out (snd (update_common_flowstate_json [''material/new_sknp.rpak'']
                (demo_world\<lparr>files := [json_file \<mapsto> manifest_no_matl]\<rparr>)))) =
     ''Warning: No existing material entries found in common_flowstate.json''"
proof -
  let ?w = "demo_world\<lparr>files := [json_file \<mapsto> manifest_no_matl]\<rparr>"
  have h1: "files ?w json_file = Some manifest_no_matl" by simp
  have h2: "read_fault ?w json_file = None" by (simp add: demo_world_def no_fault_def)
  have h3: "\<not> sublist first_matl_pattern manifest_no_matl"
    unfolding str_contains_sublist[symmetric]
    by (simp add: manifest_no_matl_def first_matl_pattern_def)
  have h4: "\<exists>p \<in> set [''material/new_sknp.rpak'']. \<not> sublist (quoted p) manifest_no_matl"
    unfolding str_contains_sublist[symmetric]
    by (simp add: manifest_no_matl_def quoted_def)
  show ?thesis
    using no_marker_no_change[OF h1 h2 h3 h4] by simp
qed



text \<open>
  C8. When the loop over the names finishes, the list of logical manifest paths it hands to
  the patcher holds exactly one path per name, \<open>material/<name>_sknp.rpak\<close> built from the
  full name with forward slashes, in the order of the names. The list is the same on every
  platform and in every world in which the loop finishes, so it does not depend on the
  separator or on the output directories. The generator passes this list to the patcher,
  whose outcome and files are those of the run.
\<close>

theorem recorded_manifest_paths:
  assumes "process_all pf material_names [] w = (Inr material_paths, w')"
  shows "material_paths = map (\<lambda>n. ''material/'' @ n @ ''_sknp.rpak'') material_names \<and>
         length material_paths = length material_names \<and>
         (\<forall>pf2 w2 ps2 w2'. process_all pf2 material_names [] w2 = (Inr ps2, w2')
             \<longrightarrow> ps2 = material_paths) \<and>
         (material_names \<noteq> [] \<and> path_exists w uber_template \<longrightarrow>
            fst (generate_materials pf material_names w) =
              fst (update_common_flowstate_json
                     (map (\<lambda>n. ''material/'' @ n @ ''_sknp.rpak'') material_names)
                     (py_print ''\<newline>Updating common_flowstate.json...'' w')) \<and>
            files (snd (generate_materials pf material_names w)) =
              files (snd (update_common_flowstate_json
                     (map (\<lambda>n. ''material/'' @ n @ ''_sknp.rpak'') material_names)
                     (py_print ''\<newline>Updating common_flowstate.json...'' w'))))"
proof -
  have m: "material_path_of = (\<lambda>n. ''material/'' @ n @ ''_sknp.rpak'')"
    by (rule ext) (simp add: material_path_of_def)
  have p: "material_paths = map (\<lambda>n. ''material/'' @ n @ ''_sknp.rpak'') material_names"
    using process_all_paths[OF assms] by (simp add: m)
  have q: "ps2 = material_paths"
    if "process_all pf2 material_names [] w2 = (Inr ps2, w2')" for pf2 w2 ps2 w2'
    using process_all_paths[OF that] p by (simp add: m)
  show ?thesis
    proof (intro conjI allI impI)
    show "material_paths = map (\<lambda>n. ''material/'' @ n @ ''_sknp.rpak'') material_names" by (rule p)
    show "length material_paths = length material_names" using p by simp
    show "ps2 = material_paths"
      if "process_all pf2 material_names [] w2 = (Inr ps2, w2')" for pf2 w2 ps2 w2'
      using q[OF that] .
    assume h: "material_names \<noteq> [] \<and> path_exists w uber_template"
    obtain r v where u: "update_common_flowstate_json
                     (map (\<lambda>n. ''material/'' @ n @ ''_sknp.rpak'') material_names)
                     (py_print ''\<newline>Updating common_flowstate.json...'' w') = (r, v)"
      by (cases "update_common_flowstate_json
                     (map (\<lambda>n. ''material/'' @ n @ ''_sknp.rpak'') material_names)
                     (py_print ''\<newline>Updating common_flowstate.json...'' w')") auto
    have g: "generate_materials pf material_names w =
               (case r of Inl e \<Rightarrow> (Inl e, v)
                | Inr u \<Rightarrow> (Inr (), py_print (''\<newline>Completed processing ''
                                       @ nat_str (length material_names) @ '' materials.'') v))"
      using h assms p u by (simp add: generate_materials_def)
    show "fst (generate_materials pf material_names w) =
              fst (update_common_flowstate_json
                     (map (\<lambda>n. ''material/'' @ n @ ''_sknp.rpak'') material_names)
                     (py_print ''\<newline>Updating common_flowstate.json...'' w'))"
      unfolding g u by (cases r) simp_all
    show "files (snd (generate_materials pf material_names w)) =
              files (snd (update_common_flowstate_json
                     (map (\<lambda>n. ''material/'' @ n @ ''_sknp.rpak'') material_names)
                     (py_print ''\<newline>Updating common_flowstate.json...'' w')))"
      unfolding g u by (cases r) (simp_all add: py_print_def)
  qed
qed

theorem recorded_manifest_paths_witness:
  "fst (process_all demo_platform [''foo/bar'', ''baz''] [] demo_world) =
     Inr (map (\<lambda>n. ''material/'' @ n @ ''_sknp.rpak'') [''foo/bar'', ''baz'']) \<and>
   fst (generate_materials demo_platform [''foo/bar'', ''baz''] demo_world) =
     fst (update_common_flowstate_json
             [''material/foo/bar_sknp.rpak'', ''material/baz_sknp.rpak'']
             (py_print ''\<newline>Updating common_flowstate.json...''
                (snd (process_all demo_platform [''foo/bar'', ''baz''] [] demo_world))))"
proof -
  let ?r = "process_all demo_platform [''foo/bar'', ''baz''] [] demo_world"
  have h: "?r = (Inr [''material/foo/bar_sknp.rpak'', ''material/baz_sknp.rpak''], snd ?r)"
    using demo_process_two by (simp add: prod_eq_iff del: process_all.simps)
  have e: "path_exists demo_world uber_template"
    by (simp add: path_exists_def demo_world_def)
  show ?thesis
    using recorded_manifest_paths[OF h] e demo_process_two
    by (simp del: process_all.simps)
qed

text \<open>
  C9. Suppose the input loop has collected a non-empty list of names and a further line,
  the answer, is there to be read. The test of the script on the answer, stripped and
  lower-cased, holds exactly when the stripped answer is \<open>y\<close> or \<open>yes\<close> in any mix of upper
  and lower case. In that case the run is the run of the generator on the collected names,
  in the world the program started in but for the lines printed so far. In every other
  case the program prints \<open>Operation cancelled.\<close> and returns normally, with the files and
  the directories it started with.
\<close>

theorem confirmation_gate:
  assumes "read_names stdin [] = (Inr material_names, answer # rest)"
    and "material_names \<noteq> []"
  shows "((lower (strip answer) = ''y'' \<or> lower (strip answer) = ''yes'') \<longleftrightarrow>
            strip answer \<in> {''y'', ''Y'', ''yes'', ''yeS'', ''yEs'', ''yES'',
                             ''Yes'', ''YeS'', ''YEs'', ''YES''}) \<and>
         (strip answer \<in> {''y'', ''Y'', ''yes'', ''yeS'', ''yEs'', ''yES'',
                            ''Yes'', ''YeS'', ''YEs'', ''YES''} \<longrightarrow>
            (\<exists>lines. main pf stdin w =
                        generate_materials pf material_names (w\<lparr>out := lines\<rparr>))) \<and>
         (strip answer \<notin> {''y'', ''Y'', ''yes'', ''yeS'', ''yEs'', ''yES'',
                            ''Yes'', ''YeS'', ''YEs'', ''YES''} \<longrightarrow>
            fst (main pf stdin w) = Inr () \<and>
            files (snd (main pf stdin w)) = files w \<and>
            dirs (snd (main pf stdin w)) = dirs w \<and>
            last (out (snd (main pf stdin w))) = ''Operation cancelled.'')"
proof -
  let ?yes = "{''y'', ''Y'', ''yes'', ''yeS'', ''yEs'', ''yES'', ''Yes'', ''YeS'', ''YEs'', ''YES''}"
  let ?w0 = "py_print ''Enter material names (one per line, empty line to finish):''
                 (py_print (replicate 40 (CHR ''='')) (py_print ''Material Generator for Repak'' w))"
  let ?w1 = "echo_names 1 material_names (py_print ''\<newline>Material names to process:'' ?w0)"
  let ?w2 = "py_print ''\<newline>Proceed with generation? (y/N): '' ?w1"
  have c: "(lower (strip answer) = ''y'' \<or> lower (strip answer) = ''yes'') \<longleftrightarrow> strip answer \<in> ?yes"
    unfolding lower_is_y lower_is_yes by auto
  obtain lines where l: "?w1 = (py_print ''\<newline>Material names to process:'' ?w0)\<lparr>out := lines\<rparr>"
    using echo_names_out by blast
  have w2: "?w2 = w\<lparr>out := lines @ [''\<newline>Proceed with generation? (y/N): '']\<rparr>"
    unfolding l by (simp add: py_print_def)
  have m: "main pf stdin w =
             (if lower (strip answer) = ''y'' \<or> lower (strip answer) = ''yes''
              then generate_materials pf material_names ?w2
              else (Inr (), py_print ''Operation cancelled.'' ?w2))"
    using assms by (simp add: main_def Let_def)
  have y: "\<exists>lines. main pf stdin w = generate_materials pf material_names (w\<lparr>out := lines\<rparr>)"
    if "strip answer \<in> ?yes"
  proof -
    have "main pf stdin w = generate_materials pf material_names ?w2"
      using that c m by simp
    then show ?thesis unfolding w2 by blast
  qed
  have n: "fst (main pf stdin w) = Inr () \<and>
            files (snd (main pf stdin w)) = files w \<and>
            dirs (snd (main pf stdin w)) = dirs w \<and>
            last (out (snd (main pf stdin w))) = ''Operation cancelled.''"
    if "strip answer \<notin> ?yes"
  proof -
    have "main pf stdin w = (Inr (), py_print ''Operation cancelled.'' ?w2)"
      using that c m by simp
    then show ?thesis unfolding w2 by (simp add: py_print_def)
  qed
  show ?thesis using c y n by blast
qed


theorem confirmation_gate_witness:
  "(\<exists>lines. main demo_platform [''  foo/bar '', [], '' YeS ''] demo_world =
      generate_materials demo_platform [''foo/bar''] (demo_world\<lparr>out := lines\<rparr>)) \<and>
   fst (main demo_platform [''foo/bar'', [], ''no''] demo_world) = Inr () \<and>
   files (snd (main demo_platform [''foo/bar'', [], ''no''] demo_world)) = files demo_world \<and>
   dirs (snd (main demo_platform [''foo/bar'', [], ''no''] demo_world)) = dirs demo_world \<and>
   last (out (snd (main demo_platform [''foo/bar'', [], ''no''] demo_world))) =
     ''Operation cancelled.''"
proof -
  have s: "strip ''  foo/bar '' = ''foo/bar''" "strip [] = []" "strip '' YeS '' = ''YeS''"
    "strip ''foo/bar'' = ''foo/bar''" "strip ''no'' = ''no''"
    by (simp_all add: strip_def isspace_def)
  have r1: "read_names [''  foo/bar '', [], '' YeS ''] [] = (Inr [''foo/bar''], '' YeS '' # [])"
    by (simp add: s)
  have r2: "read_names [''foo/bar'', [], ''no''] [] = (Inr [''foo/bar''], ''no'' # [])"
    by (simp add: s)
  have ne: "[''foo/bar''] \<noteq> []" by simp
  show ?thesis
    using confirmation_gate[OF r1 ne, of demo_platform demo_world]
      confirmation_gate[OF r2 ne, of demo_platform demo_world]
    by (simp add: s)
qed

text \<open>
  C10. For a material name whose last character is \<open>/\<close>, written \<open>stem @ "/"\<close>: the base
  identifier is the empty string; the output directory is \<open>assets/material\<close> followed by
  the stem (with the platform's separator for \<open>/\<close>) when the stem is not empty; when the
  loop body finishes it has recorded \<open>material/<name>_sknp.rpak\<close> and written exactly the
  two files \<open>_sknp.json\<close> and \<open>_sknp.uber\<close> of that directory, the second a copy of the
  template; on a platform that refuses none of these operations it does finish; and the
  input loop keeps such a name, whose stripped form still ends in \<open>/\<close>, so nothing rejects
  it.
\<close>

theorem trailing_slash_name:
  assumes "material_name = stem @ ''/''"
  shows "base_name_of material_name = [] \<and>
    material_dir_of pf material_name =
      (if stem = [] then [''assets'', ''material'']
       else [''assets'', ''material'', str_replace (CHR ''/'') (os_sep pf) stem]) \<and>
    (process_material pf material_name w = (Inr p, w') \<longrightarrow>
       p = ''material/'' @ material_name @ ''_sknp.rpak'' \<and>
       files w' (material_dir_of pf material_name @ [''_sknp.json'']) =
         Some (json_dump pf (create_material_json material_name)) \<and>
       files w' (material_dir_of pf material_name @ [''_sknp.uber'']) = files w uber_template \<and>
       files w uber_template \<noteq> None \<and>
       (\<forall>q. q \<noteq> material_dir_of pf material_name @ [''_sknp.json''] \<and>
            q \<noteq> material_dir_of pf material_name @ [''_sknp.uber''] \<longrightarrow> files w' q = files w q)) \<and>
    (files w (material_dir_of pf material_name) = None \<and>
     mkdir_fault w (material_dir_of pf material_name) = None \<and>
     write_fault w (material_dir_of pf material_name @ [''_sknp.json'']) = None \<and>
     write_fault w (material_dir_of pf material_name @ [''_sknp.uber'']) = None \<and>
     files w uber_template \<noteq> None \<and> read_fault w uber_template = None \<longrightarrow>
       fst (process_material pf material_name w) = Inr (''material/'' @ material_name @ ''_sknp.rpak'')) \<and>
    read_names (material_name # rest) acc = read_names rest (acc @ [strip material_name]) \<and>
    last (strip material_name) = CHR ''/''"
proof -
  have b: "base_name_of material_name = []"
    using assms base_name_trailing_slash by simp
  have d: "material_dir_of pf material_name =
      (if stem = [] then [''assets'', ''material'']
       else [''assets'', ''material'', str_replace (CHR ''/'') (os_sep pf) stem])"
    using assms parent_path_trailing_slash[of stem]
    by (simp add: material_dir_of_def assets_dir_def)
  have s: "strip material_name = dropWhile isspace stem @ ''/''"
    using assms strip_trailing_slash by simp
  have r: "read_names (material_name # rest) acc = read_names rest (acc @ [strip material_name])"
    by (simp add: s)
  have ok: "fst (process_material pf material_name w) = Inr (''material/'' @ material_name @ ''_sknp.rpak'')"
    if "files w (material_dir_of pf material_name) = None \<and>
     mkdir_fault w (material_dir_of pf material_name) = None \<and>
     write_fault w (material_dir_of pf material_name @ [''_sknp.json'']) = None \<and>
     write_fault w (material_dir_of pf material_name @ [''_sknp.uber'']) = None \<and>
     files w uber_template \<noteq> None \<and> read_fault w uber_template = None"
  proof -
    from that obtain c where c: "files w uber_template = Some c" by auto
    show ?thesis
      using process_material_ok[of w pf material_name c] that c b
      by (simp add: material_path_of_def)
  qed
  have fin: "p = ''material/'' @ material_name @ ''_sknp.rpak'' \<and>
       files w' (material_dir_of pf material_name @ [''_sknp.json'']) =
         Some (json_dump pf (create_material_json material_name)) \<and>
       files w' (material_dir_of pf material_name @ [''_sknp.uber'']) = files w uber_template \<and>
       files w uber_template \<noteq> None \<and>
       (\<forall>q. q \<noteq> material_dir_of pf material_name @ [''_sknp.json''] \<and>
            q \<noteq> material_dir_of pf material_name @ [''_sknp.uber''] \<longrightarrow> files w' q = files w q)"
    if h: "process_material pf material_name w = (Inr p, w')"
    using process_material_files[OF h] process_material_result[OF h] b
    by (auto simp: material_path_of_def)
  show ?thesis
    using b d r s ok fin by (simp del: read_names.simps)
qed


theorem trailing_slash_name_witness:
  "base_name_of ''x/'' = [] \<and>
   material_dir_of demo_platform ''x/'' = [''assets'', ''material'', ''x''] \<and>
   fst (process_material demo_platform ''x/'' demo_world) = Inr ''material/x/_sknp.rpak'' \<and>
   files (snd (process_material demo_platform ''x/'' demo_world))
     [''assets'', ''material'', ''x'', ''_sknp.json''] =
       Some (demo_dump (create_material_json ''x/'')) \<and>
   files (snd (process_material demo_platform ''x/'' demo_world))
     [''assets'', ''material'', ''x'', ''_sknp.uber''] = Some ''UBER'' \<and>
   read_names [''x/'', []] [] = (Inr [''x/''], [])"
proof -
  let ?r = "process_material demo_platform ''x/'' demo_world"
  have n: "''x/'' = ''x'' @ ''/''" by simp
  note t = trailing_slash_name[OF n, of demo_platform demo_world "''material/x/_sknp.rpak''"
      "snd ?r" "[[]]" "[]"]
  have d: "material_dir_of demo_platform ''x/'' = [''assets'', ''material'', ''x'']"
    using t by (simp add: demo_platform_def str_replace_def)
  have f: "fst ?r = Inr ''material/x/_sknp.rpak''"
    using t by (simp add: d demo_world_def no_fault_def uber_template_def json_file_def)
  then have h: "?r = (Inr ''material/x/_sknp.rpak'', snd ?r)"
    by (simp add: prod_eq_iff)
  have s: "strip ''x/'' = ''x/''" "strip [] = []"
    by (simp_all add: strip_def isspace_def)
  have u: "files demo_world uber_template = Some ''UBER''" "json_dump demo_platform = demo_dump"
    by (simp_all add: demo_world_def demo_platform_def)
  have j: "files (snd ?r) [''assets'', ''material'', ''x'', ''_sknp.json''] =
             Some (demo_dump (create_material_json ''x/''))"
    "files (snd ?r) [''assets'', ''material'', ''x'', ''_sknp.uber''] = Some ''UBER''"
    using t h by (simp_all add: d u)
  have b: "base_name_of ''x/'' = []" using t by simp
  have r: "read_names [''x/'', []] [] = (Inr [''x/''], [])" by (simp add: s)
  show ?thesis
    using b d f j r by simp
qed


end
